theory Spec2Isabelle
  imports Main "HOL-Library.Word"
begin

unbundle bit_operations_syntax

section \<open>The Bulbdial clock firmware: data model\<close>

text \<open>
  The sketch \<^verbatim>\<open>BulbdialClock.ino\<close> is kept in two revisions: the
  interrupt-driven one (its display is multiplexed by \<^verbatim>\<open>DisplayMPX\<close> from a timer
  interrupt, and the button logic lives in \<^verbatim>\<open>CheckButtons\<close> and \<^verbatim>\<open>CheckHeld\<close>)
  and the busy-loop one (the same logic written inline in \<^verbatim>\<open>loop\<close>). Where the two
  differ, a definition takes the revision as its first argument.

  The target is an ATmega328 compiled with avr-gcc: \<^verbatim>\<open>byte\<close> is an unsigned 8-bit
  value, \<^verbatim>\<open>int\<close> and \<^verbatim>\<open>unsigned int\<close> are 16 bits wide, \<^verbatim>\<open>long\<close> and
  \<^verbatim>\<open>unsigned long\<close> 32 bits. Unsigned values are words, whose arithmetic wraps and
  whose order is the unsigned one. The signed \<^verbatim>\<open>long timeNow\<close> and the signed
  \<^verbatim>\<open>char AlignRate\<close> are integers; every \<^verbatim>\<open>long\<close> result goes through
  \<open>long\<close>, the two's complement wrap-around to 32 bits.
\<close>

type_synonym byte = "8 word"
type_synonym uint = "16 word"
type_synonym ulong = "32 word"

datatype revision = Interrupt | BusyLoop

definition long :: "int \<Rightarrow> int" where
  "long i = signed_take_bit 31 i"

text \<open>The global variables of the sketch. \<open>EEPROM\<close> is the persistent memory behind
  \<^verbatim>\<open>EEPROM.read\<close> and \<^verbatim>\<open>EEPROM.write\<close>; \<open>EEwrites\<close> records every
  \<^verbatim>\<open>EEPROM.write\<close> the program issues, in order.\<close>

record clock =
  timeNow :: int
  HrDisp :: byte
  MinDisp :: byte
  SecDisp :: byte
  SecNext :: byte
  MinNext :: byte
  HrNext :: byte
  EEPROM :: "nat \<Rightarrow> byte"
  EEwrites :: "(nat \<times> byte) list"
  HourBright :: byte
  MinBright :: byte
  SecBright :: byte
  MainBright :: byte
  millisThen :: ulong
  millisNow :: ulong
  TimeSinceButton :: byte
  LastSavedBrightness :: byte
  PINDLast :: byte
  CCW :: byte
  ExtRTC :: byte
  UpdateRTC :: byte
  SleepMode :: byte
  FadeMode :: byte
  VCRmode :: byte
  FactoryResetDisable :: byte
  SettingTime :: byte
  AlignMode :: byte
  OptionMode :: byte
  AlignValue :: byte
  AlignRate :: int
  StartingOption :: byte
  HoldTimeSet :: byte
  HoldOption :: byte
  HoldAlign :: byte
  MomentaryOverridePlus :: byte
  MomentaryOverrideMinus :: byte
  MomentaryOverrideZ :: byte
  HrFade1 :: byte
  HrFade2 :: byte
  MinFade1 :: byte
  MinFade2 :: byte
  SecFade1 :: byte
  SecFade2 :: byte
  D0 :: byte
  D1 :: byte
  D2 :: byte
  D3 :: byte
  D4 :: byte
  D5 :: byte

text \<open>The macros of the sketch.\<close>

definition MainBrightDefault :: byte where "MainBrightDefault = 8"
definition RedBrightDefault :: byte where "RedBrightDefault = 63"
definition GreenBrightDefault :: byte where "GreenBrightDefault = 63"
definition BlueBrightDefault :: byte where "BlueBrightDefault = 63"
definition CCWDefault :: byte where "CCWDefault = 0"
definition FadeModeDefault :: byte where "FadeModeDefault = 1"
definition FadeModes :: byte where "FadeModes = 4"
definition buttonmask :: byte where "buttonmask = 224"
definition StartOptTimeLimit :: byte where "StartOptTimeLimit = 30"

text \<open>The state when \<^verbatim>\<open>setup\<close> starts: C zero-initialises every global, and the
  EEPROM holds whatever was stored before the power went off.\<close>

definition power_on :: "(nat \<Rightarrow> byte) \<Rightarrow> clock" where
  "power_on ee =
     \<lparr> timeNow = 0, HrDisp = 0, MinDisp = 0, SecDisp = 0, SecNext = 0, MinNext = 0,
       HrNext = 0, EEPROM = ee, EEwrites = [], HourBright = 0, MinBright = 0,
       SecBright = 0, MainBright = 0, millisThen = 0, millisNow = 0,
       TimeSinceButton = 0, LastSavedBrightness = 0, PINDLast = 0, CCW = 0, ExtRTC = 0,
       UpdateRTC = 0, SleepMode = 0, FadeMode = 0, VCRmode = 0, FactoryResetDisable = 0,
       SettingTime = 0, AlignMode = 0, OptionMode = 0, AlignValue = 0, AlignRate = 0,
       StartingOption = 0, HoldTimeSet = 0, HoldOption = 0, HoldAlign = 0,
       MomentaryOverridePlus = 0, MomentaryOverrideMinus = 0, MomentaryOverrideZ = 0,
       HrFade1 = 0, HrFade2 = 0, MinFade1 = 0, MinFade2 = 0, SecFade1 = 0, SecFade2 = 0,
       D0 = 0, D1 = 0, D2 = 0, D3 = 0, D4 = 0, D5 = 0 \<rparr>"

section \<open>Persistent settings\<close>

definition ApplyDefaults :: "clock \<Rightarrow> clock" where
  "ApplyDefaults s =
     s\<lparr> MainBright := MainBrightDefault, HourBright := RedBrightDefault,
        MinBright := GreenBrightDefault, SecBright := BlueBrightDefault,
        CCW := CCWDefault, FadeMode := FadeModeDefault \<rparr>"

text \<open>\<^verbatim>\<open>EEReadSettings\<close>: each stored byte is checked in turn; a bad one sets
  \<^verbatim>\<open>detectBad\<close> and leaves its variable alone, a good one is copied. A stored main
  brightness of 0 is turned into 1. The fade mode is only compared with 255.\<close>

definition EEReadSettings :: "clock \<Rightarrow> clock" where
  "EEReadSettings s0 =
     (let detectBad = False;
          value = EEPROM s0 0;
          (detectBad, s) = (if value > 8 then (True, s0) else (detectBad, s0\<lparr>MainBright := value\<rparr>));
          s = (if value = 0 then s\<lparr>MainBright := 1\<rparr> else s);
          value = EEPROM s 1;
          (detectBad, s) = (if value > 63 then (True, s) else (detectBad, s\<lparr>HourBright := value\<rparr>));
          value = EEPROM s 2;
          (detectBad, s) = (if value > 63 then (True, s) else (detectBad, s\<lparr>MinBright := value\<rparr>));
          value = EEPROM s 3;
          (detectBad, s) = (if value > 63 then (True, s) else (detectBad, s\<lparr>SecBright := value\<rparr>));
          value = EEPROM s 4;
          (detectBad, s) = (if value > 1 then (True, s) else (detectBad, s\<lparr>CCW := value\<rparr>));
          value = EEPROM s 5;
          (detectBad, s) = (if value = 255 then (True, s) else (detectBad, s\<lparr>FadeMode := value\<rparr>));
          s = (if detectBad then ApplyDefaults s else s)
      in s\<lparr>LastSavedBrightness := MainBright s\<rparr>)"

text \<open>\<^verbatim>\<open>EEUpdate\<close> reads the cell and writes only a different value.\<close>

definition EEUpdate :: "nat \<Rightarrow> byte \<Rightarrow> clock \<Rightarrow> clock" where
  "EEUpdate loc val s =
     (let c = EEPROM s loc
      in if c \<noteq> val
         then s\<lparr>EEPROM := (EEPROM s)(loc := val), EEwrites := EEwrites s @ [(loc, val)]\<rparr>
         else s)"

text \<open>\<^verbatim>\<open>EESaveSettings\<close>. The blink that follows the six updates in the interrupt
  revision switches the display off and on again and changes no variable of the model.\<close>

definition EESaveSettings :: "clock \<Rightarrow> clock" where
  "EESaveSettings s0 =
     (let s = EEUpdate 0 (MainBright s0) s0;
          s = EEUpdate 1 (HourBright s) s;
          s = EEUpdate 2 (MinBright s) s;
          s = EEUpdate 3 (SecBright s) s;
          s = EEUpdate 4 (CCW s) s;
          s = EEUpdate 5 (FadeMode s) s
      in s\<lparr>LastSavedBrightness := MainBright s\<rparr>)"

text \<open>The stored bytes that \<^verbatim>\<open>EEReadSettings\<close> copies unchanged.\<close>

definition stored_accepted :: "(nat \<Rightarrow> byte) \<Rightarrow> bool" where
  "stored_accepted ee =
     (1 \<le> ee 0 \<and> ee 0 \<le> 8 \<and> ee 1 \<le> 63 \<and> ee 2 \<le> 63 \<and> ee 3 \<le> 63 \<and> ee 4 \<le> 1
      \<and> ee 5 \<noteq> 255)"

text \<open>The six settings are the factory defaults.\<close>

definition factory_settings :: "clock \<Rightarrow> bool" where
  "factory_settings s =
     (MainBright s = MainBrightDefault \<and> HourBright s = RedBrightDefault
      \<and> MinBright s = GreenBrightDefault \<and> SecBright s = BlueBrightDefault
      \<and> CCW s = CCWDefault \<and> FadeMode s = FadeModeDefault)"

text \<open>The ranges the specification gives for the stored fields: main brightness 1..8,
  each channel brightness 0..63, rotation flag 0 or 1, fade policy 0..4.\<close>

definition spec_valid_settings :: "(nat \<Rightarrow> byte) \<Rightarrow> bool" where
  "spec_valid_settings ee =
     (1 \<le> ee 0 \<and> ee 0 \<le> 8 \<and> ee 1 \<le> 63 \<and> ee 2 \<le> 63 \<and> ee 3 \<le> 63 \<and> ee 4 \<le> 1
      \<and> ee 5 \<le> 4)"

section \<open>The real-time clock chip\<close>

text \<open>\<^verbatim>\<open>abs\<close> is the Arduino macro \<^verbatim>\<open>((x)>0?(x):-(x))\<close>, here at type
  \<^verbatim>\<open>long\<close>.\<close>

definition abs_long :: "int \<Rightarrow> int" where
  "abs_long x = (if x > 0 then x else long (- x))"

text \<open>One register, read into an \<^verbatim>\<open>int\<close> and converted from BCD:
  \<^verbatim>\<open>((r & m) >> 4) * 10 + (r & 0b00001111)\<close>.\<close>

definition bcd_decode :: "uint \<Rightarrow> byte \<Rightarrow> uint" where
  "bcd_decode m r = drop_bit 4 (ucast r AND m) * 10 + (ucast r AND 15)"

text \<open>The time the chip reports, as \<^verbatim>\<open>RTCgetTime\<close> computes it in 16-bit
  arithmetic: \<^verbatim>\<open>3600*hours + 60*minutes + seconds\<close>, less 43200 when above 43200.\<close>

definition timeRTC :: "byte \<times> byte \<times> byte \<Rightarrow> uint" where
  "timeRTC regs =
     (case regs of (seconds, minutes, hours) \<Rightarrow>
        let seconds = bcd_decode 240 seconds;
            minutes = bcd_decode 240 minutes;
            hours = bcd_decode 48 hours;
            t = 3600 * hours + 60 * minutes + seconds
        in if t > 43200 then t - 43200 else t)"

text \<open>\<^verbatim>\<open>RTCgetTime\<close>. The argument is what the two-wire bus delivers: \<open>None\<close> when no
  byte is available (no chip), otherwise the seconds, minutes and hours registers. The
  result is the returned \<^verbatim>\<open>status\<close> and the new state.\<close>

definition RTCgetTime :: "(byte \<times> byte \<times> byte) option \<Rightarrow> clock \<Rightarrow> byte \<times> clock" where
  "RTCgetTime bus s =
     (case bus of
        None \<Rightarrow> (0, s)
      | Some regs \<Rightarrow>
          (case regs of (seconds, minutes, hours) \<Rightarrow>
             let minutes = bcd_decode 240 minutes;
                 t = timeRTC regs;
                 updatetime = False;
                 updatetime =
                   (if minutes \<noteq> 0
                    then (if abs_long (long (uint t - timeNow s)) > 2 then True else updatetime)
                    else updatetime);
                 updatetime = (if UpdateRTC s \<noteq> 0 then True else updatetime)
             in (1, if updatetime then s\<lparr>timeNow := uint t, UpdateRTC := 0\<rparr> else s)))"

text \<open>\<^verbatim>\<open>setup\<close>, from the power-on state: \<open>m\<close> is the value of \<^verbatim>\<open>millis()\<close>,
  \<open>pind\<close> the button port and \<open>bus\<close> the answer of the clock chip.\<close>

definition setup_clock :: "ulong \<Rightarrow> byte \<Rightarrow> (byte \<times> byte \<times> byte) option \<Rightarrow> clock \<Rightarrow> clock" where
  "setup_clock m pind bus s0 =
     (let s = s0\<lparr>timeNow := 0, millisNow := m, SecDisp := 0, MinDisp := 0\<rparr>;
          s = EEReadSettings s;
          s = s\<lparr>VCRmode := 1, FactoryResetDisable := 0, TimeSinceButton := 0,
                PINDLast := pind AND buttonmask,
                HoldTimeSet := 0, HoldOption := 0, HoldAlign := 0,
                MomentaryOverridePlus := 0, MomentaryOverrideMinus := 0,
                MomentaryOverrideZ := 0, SleepMode := 0, SettingTime := 0,
                AlignMode := 0, OptionMode := 0, AlignValue := 0, AlignRate := 2,
                StartingOption := 0, ExtRTC := 0, UpdateRTC := 1\<rparr>;
          (status, s) = RTCgetTime bus s;
          s = s\<lparr>ExtRTC := status\<rparr>
      in if ExtRTC s \<noteq> 0 then s\<lparr>VCRmode := 0\<rparr> else s)"

section \<open>Ring positions\<close>

text \<open>C division and remainder on \<^verbatim>\<open>long\<close> truncate towards zero.\<close>

definition c_div :: "int \<Rightarrow> int \<Rightarrow> int" where
  "c_div a b = sgn a * sgn b * (\<bar>a\<bar> div \<bar>b\<bar>)"

definition c_mod :: "int \<Rightarrow> int \<Rightarrow> int" where
  "c_mod a b = a - b * c_div a b"

text \<open>Hours, minutes and seconds of \<^verbatim>\<open>timeNow\<close>. The interrupt revision copies
  \<^verbatim>\<open>timeNow\<close> into the \<^verbatim>\<open>unsigned int t\<close> and subtracts; the busy-loop revision
  divides the \<^verbatim>\<open>long\<close>. All three results are stored in bytes.\<close>

definition hms :: "revision \<Rightarrow> int \<Rightarrow> byte \<times> byte \<times> byte" where
  "hms rv tn =
     (case rv of
        Interrupt \<Rightarrow>
          (let t = (word_of_int tn :: uint);
               HrNow = (ucast (t div 3600) :: byte);
               t = t - ucast HrNow * 3600;
               MinNow = (ucast (t div 60) :: byte);
               SecNow = (ucast (t - ucast MinNow * 60) :: byte)
           in (HrNow, MinNow, SecNow))
      | BusyLoop \<Rightarrow>
          (let HrNow = (word_of_int (c_div tn 3600) :: byte);
               MinNow = (word_of_int (c_mod (c_div tn 60) 60) :: byte);
               SecNow = (word_of_int (c_mod tn 60) :: byte)
           in (HrNow, MinNow, SecNow)))"

text \<open>The second ring: the position \<open>disp\<close> and its successor \<open>nxt\<close>, as the
  statements on \<^verbatim>\<open>SecDisp\<close> and \<^verbatim>\<open>SecNext\<close> compute them. The interrupt revision
  halves first and adds 15; the busy-loop revision adds 30, wraps at 60 and halves.\<close>

definition sec_ring :: "revision \<Rightarrow> byte \<Rightarrow> byte \<times> byte" where
  "sec_ring rv SecNow =
     (case rv of
        Interrupt \<Rightarrow>
          (let disp = SecNow div 2 + 15;
               disp = (if disp > 29 then disp - 30 else disp);
               nxt = disp + 1;
               nxt = (if nxt > 29 then 0 else nxt)
           in (disp, nxt))
      | BusyLoop \<Rightarrow>
          (let disp = SecNow + 30;
               disp = (if disp > 59 then disp - 60 else disp);
               disp = drop_bit 1 disp;
               nxt = disp + 1;
               nxt = (if nxt > 29 then 0 else nxt)
           in (disp, nxt)))"

text \<open>The minute ring, from the statements on \<^verbatim>\<open>MinDisp\<close> and \<^verbatim>\<open>MinNext\<close>; the
  busy-loop revision wraps the successor by subtracting 30.\<close>

definition min_ring :: "revision \<Rightarrow> byte \<Rightarrow> byte \<times> byte" where
  "min_ring rv MinNow =
     (case rv of
        Interrupt \<Rightarrow>
          (let disp = MinNow div 2 + 15;
               disp = (if disp > 29 then disp - 30 else disp);
               nxt = disp + 1;
               nxt = (if nxt > 29 then 0 else nxt)
           in (disp, nxt))
      | BusyLoop \<Rightarrow>
          (let disp = MinNow + 30;
               disp = (if disp > 59 then disp - 60 else disp);
               disp = drop_bit 1 disp;
               nxt = disp + 1;
               nxt = (if nxt > 29 then nxt - 30 else nxt)
           in (disp, nxt)))"

text \<open>The hour ring, from the statements on \<^verbatim>\<open>HrDisp\<close> and \<^verbatim>\<open>HrNext\<close>, which are
  the same in both revisions; \<open>fm\<close> and \<open>st\<close> are \<^verbatim>\<open>FadeMode\<close> and
  \<^verbatim>\<open>SettingTime\<close>.\<close>

definition hour_ring :: "byte \<Rightarrow> byte \<Rightarrow> byte \<Rightarrow> byte \<Rightarrow> byte \<times> byte" where
  "hour_ring HrNow MinNow fm st =
     (let disp = HrNow + 6;
          disp = (if fm = 2
                  then (if st = 0 \<and> MinNow > 30 then disp + 1 else disp)
                  else disp);
          disp = (if disp > 11 then disp - 12 else disp);
          nxt = disp + 1;
          nxt = (if nxt > 11 then 0 else nxt)
      in (disp, nxt))"

definition NormalTimeDisplay :: "revision \<Rightarrow> clock \<Rightarrow> clock" where
  "NormalTimeDisplay rv s =
     (case hms rv (timeNow s) of (HrNow, MinNow, SecNow) \<Rightarrow>
        (case sec_ring rv SecNow of (sd, sn) \<Rightarrow>
           (case min_ring rv MinNow of (md, mn) \<Rightarrow>
              (case hour_ring HrNow MinNow (FadeMode s) (SettingTime s) of (hrd, hrn) \<Rightarrow>
                 s\<lparr>SecDisp := sd, SecNext := sn, MinDisp := md, MinNext := mn,
                    HrDisp := hrd, HrNext := hrn\<rparr>))))"

text \<open>The six values the display is built from.\<close>

definition positions :: "clock \<Rightarrow> byte \<times> byte \<times> byte \<times> byte \<times> byte \<times> byte" where
  "positions s = (HrDisp s, HrNext s, MinDisp s, MinNext s, SecDisp s, SecNext s)"

section \<open>Fading\<close>

text \<open>The table \<^verbatim>\<open>FadeConv\<close> of each revision, 201 entries.\<close>

definition FadeConv :: "revision \<Rightarrow> byte list" where
  "FadeConv rv =
     (case rv of
        Interrupt \<Rightarrow>
          [
           0, 0, 1, 1, 1, 2, 2, 2, 3, 3, 3, 3, 4, 4, 4, 5, 5, 5, 6, 6, 6, 7, 7, 7, 8,
           8, 8, 9, 9, 9, 9, 10, 10, 10, 11, 11, 11, 12, 12, 12, 13, 13, 13, 14, 14,
           14, 14, 15, 15, 15, 16, 16, 16, 17, 17, 17, 18, 18, 18, 19, 19, 19, 20, 20,
           20, 20, 21, 21, 21, 22, 22, 22, 23, 23, 23, 24, 24, 24, 25, 25, 25, 26, 26,
           26, 26, 27, 27, 27, 28, 28, 28, 29, 29, 29, 30, 30, 30, 31, 31, 31, 32, 32,
           32, 32, 33, 33, 33, 34, 34, 34, 35, 35, 35, 36, 36, 36, 37, 37, 37, 37, 38,
           38, 38, 39, 39, 39, 40, 40, 40, 41, 41, 41, 42, 42, 42, 43, 43, 43, 43, 44,
           44, 44, 45, 45, 45, 46, 46, 46, 47, 47, 47, 48, 48, 48, 49, 49, 49, 49, 50,
           50, 50, 51, 51, 51, 52, 52, 52, 53, 53, 53, 54, 54, 54, 54, 55, 55, 55, 56,
           56, 56, 57, 57, 57, 58, 58, 58, 59, 59, 59, 60, 60, 60, 60, 61, 61, 61, 62,
           62, 62, 63, 63]
      | BusyLoop \<Rightarrow>
          [
           0, 0, 0, 0, 0, 1, 1, 1, 1, 1, 1, 1, 2, 2, 2, 2, 2, 3, 3, 3, 3, 3, 4, 4, 4,
           4, 4, 5, 5, 5, 5, 6, 6, 6, 6, 7, 7, 7, 7, 8, 8, 8, 8, 9, 9, 9, 9, 10, 10,
           10, 10, 11, 11, 11, 11, 12, 12, 12, 13, 13, 13, 13, 14, 14, 14, 15, 15, 15,
           15, 16, 16, 16, 17, 17, 17, 18, 18, 18, 19, 19, 19, 19, 20, 20, 20, 21, 21,
           21, 22, 22, 22, 23, 23, 23, 24, 24, 24, 25, 25, 25, 26, 26, 26, 27, 27, 27,
           28, 28, 28, 29, 29, 29, 30, 30, 30, 31, 31, 31, 32, 32, 32, 33, 33, 33, 34,
           34, 35, 35, 35, 36, 36, 36, 37, 37, 37, 38, 38, 39, 39, 39, 40, 40, 40, 41,
           41, 41, 42, 42, 43, 43, 43, 44, 44, 44, 45, 45, 46, 46, 46, 47, 47, 48, 48,
           48, 49, 49, 49, 50, 50, 51, 51, 51, 52, 52, 53, 53, 53, 54, 54, 55, 55, 55,
           56, 56, 57, 57, 57, 58, 58, 59, 59, 59, 60, 60, 61, 61, 61, 62, 62, 63, 63])"

text \<open>An array read. C reads whatever lies behind the array when the index is too
  large; the model gives \<open>None\<close> there.\<close>

definition table_at :: "byte list \<Rightarrow> nat \<Rightarrow> byte option" where
  "table_at xs i = (if i < length xs then Some (xs ! i) else None)"

text \<open>The three indices of the logarithmic fade, \<^verbatim>\<open>case 4\<close> of \<^verbatim>\<open>NormalFades\<close>:
  \<^verbatim>\<open>msNow/10\<close> in \<^verbatim>\<open>unsigned long\<close> arithmetic after 1000 is added on an odd
  second, \<^verbatim>\<open>SecNow*5/3\<close> in \<^verbatim>\<open>int\<close> arithmetic after 60 is added to the byte on an
  odd minute, and \<^verbatim>\<open>MinNow*10/3\<close>.\<close>

definition sec_index :: "ulong \<Rightarrow> byte \<Rightarrow> nat" where
  "sec_index msNow SecNow =
     (let msNow = (if SecNow AND 1 \<noteq> 0 then msNow + 1000 else msNow)
      in unat (msNow div 10))"

definition min_index :: "byte \<Rightarrow> byte \<Rightarrow> nat" where
  "min_index MinNow SecNow =
     (let SecNow = (if MinNow AND 1 \<noteq> 0 then SecNow + 60 else SecNow)
      in unat ((ucast SecNow :: uint) * 5 div 3))"

definition hr_index :: "byte \<Rightarrow> nat" where
  "hr_index MinNow = unat ((ucast MinNow :: uint) * 10 div 3)"

text \<open>The body of the \<^verbatim>\<open>switch\<close> of \<^verbatim>\<open>NormalFades\<close> for fade modes 1 and 2; in
  the busy-loop revision each assignment to a second weight is followed by the
  assignment of the first.\<close>

definition classic_fades :: "revision \<Rightarrow> ulong \<Rightarrow> byte \<Rightarrow> byte \<Rightarrow> clock \<Rightarrow> clock" where
  "classic_fades rv msNow MinNow SecNow s0 =
     (let s = (if SecNow AND 1 \<noteq> 0
               then (let s = s0\<lparr>SecFade2 := ucast (msNow * 63 div 1000)\<rparr>
                     in case rv of Interrupt \<Rightarrow> s
                        | BusyLoop \<Rightarrow> s\<lparr>SecFade1 := 63 - SecFade2 s\<rparr>)
               else s0);
          s = (if MinNow AND 1 \<noteq> 0
               then (if SecNow = 59 \<or> SettingTime s \<noteq> 0
                     then (let s = s\<lparr>MinFade2 := SecFade2 s\<rparr>
                           in case rv of Interrupt \<Rightarrow> s
                              | BusyLoop \<Rightarrow> s\<lparr>MinFade1 := SecFade1 s\<rparr>)
                     else s)
               else s)
      in if (MinNow = 59 \<and> FadeMode s = 1) \<or> (MinNow = 30 \<and> FadeMode s = 2)
         then (if SecNow = 59
               then (let s = s\<lparr>HrFade2 := SecFade2 s\<rparr>
                     in case rv of Interrupt \<Rightarrow> s
                        | BusyLoop \<Rightarrow> s\<lparr>HrFade1 := SecFade1 s\<rparr>)
               else s)
         else s)"

text \<open>Fade mode 3, continuous linear fading.\<close>

definition linear_fades :: "ulong \<Rightarrow> byte \<Rightarrow> byte \<Rightarrow> clock \<Rightarrow> clock" where
  "linear_fades msNow MinNow SecNow s0 =
     (let msNow = (if SecNow AND 1 \<noteq> 0 then msNow + 1000 else msNow);
          s = s0\<lparr>SecFade2 := ucast (msNow * 63 div 2000)\<rparr>;
          SecNow = (if MinNow AND 1 \<noteq> 0 then SecNow + 60 else SecNow);
          s = s\<lparr>MinFade2 := ucast ((ucast SecNow :: uint) * 63 div 120)\<rparr>
      in s\<lparr>HrFade2 := ucast ((ucast MinNow :: uint) * 63 div 60)\<rparr>)"

text \<open>Fade mode 4, continuous logarithmic fading: three reads of \<^verbatim>\<open>FadeConv\<close>.\<close>

definition log_fades :: "revision \<Rightarrow> ulong \<Rightarrow> byte \<Rightarrow> byte \<Rightarrow> clock \<Rightarrow> clock option" where
  "log_fades rv msNow MinNow SecNow s =
     (case table_at (FadeConv rv) (sec_index msNow SecNow) of
        None \<Rightarrow> None
      | Some f \<Rightarrow>
          (case table_at (FadeConv rv) (min_index MinNow SecNow) of
             None \<Rightarrow> None
           | Some g \<Rightarrow>
               (case table_at (FadeConv rv) (hr_index MinNow) of
                  None \<Rightarrow> None
                | Some h \<Rightarrow> Some (s\<lparr>SecFade2 := f, MinFade2 := g, HrFade2 := h\<rparr>))))"

text \<open>The first weights are 63 minus the second ones: after the \<^verbatim>\<open>switch\<close> in the
  interrupt revision, inside the cases 3 and 4 in the busy-loop revision.\<close>

definition complement_fades :: "clock \<Rightarrow> clock" where
  "complement_fades s =
     s\<lparr>SecFade1 := 63 - SecFade2 s, MinFade1 := 63 - MinFade2 s, HrFade1 := 63 - HrFade2 s\<rparr>"

definition NormalFades :: "revision \<Rightarrow> clock \<Rightarrow> clock option" where
  "NormalFades rv s =
     (case hms rv (timeNow s) of (HrNow, MinNow, SecNow) \<Rightarrow>
        let msNow = millisNow s - millisThen s
        in case rv of
             Interrupt \<Rightarrow>
               map_option complement_fades
                 (if FadeMode s = 0 then Some s
                  else if FadeMode s = 1 \<or> FadeMode s = 2
                    then Some (classic_fades rv msNow MinNow SecNow s)
                  else if FadeMode s = 3 then Some (linear_fades msNow MinNow SecNow s)
                  else if FadeMode s = 4 then log_fades rv msNow MinNow SecNow s
                  else Some s)
           | BusyLoop \<Rightarrow>
               (if FadeMode s = 0 then Some (s\<lparr>HrFade1 := 63, MinFade1 := 63, SecFade1 := 63\<rparr>)
                else if FadeMode s = 1 \<or> FadeMode s = 2
                  then Some (classic_fades rv msNow MinNow SecNow s)
                else if FadeMode s = 3
                  then Some (complement_fades (linear_fades msNow MinNow SecNow s))
                else if FadeMode s = 4
                  then map_option complement_fades (log_fades rv msNow MinNow SecNow s)
                else Some s))"

section \<open>Dwell times\<close>


text \<open>One dwell value. The product is formed in \<^verbatim>\<open>int\<close>, shifted and stored in a
  byte. The interrupt revision writes \<^verbatim>\<open>HourBright*HrFade1*tempbright >> 7 + 1\<close>: in C
  the additive operators bind tighter than the shifts, so the shift count is
  \<open>7 + 1\<close>. The busy-loop revision writes \<^verbatim>\<open>HourBright*HrFade1*tempbright >> 7\<close>.\<close>

definition dwell :: "revision \<Rightarrow> byte \<Rightarrow> byte \<Rightarrow> byte \<Rightarrow> byte" where
  "dwell rv bright fade tb =
     (let p = (ucast bright * ucast fade * ucast tb :: uint)
      in case rv of
           Interrupt \<Rightarrow> ucast (signed_drop_bit (7 + 1) p)
         | BusyLoop \<Rightarrow> ucast (signed_drop_bit 7 p))"


section \<open>Buttons\<close>

text \<open>The buttons pull their port bits low: bit 32 is \<open>+\<close>, bit 64 is \<open>-\<close>, bit 128 is
  \<open>Z\<close>, and a set bit is a button that is up. \<^verbatim>\<open>AlignRate\<close> is a signed \<^verbatim>\<open>char\<close>;
  it is only incremented below 2 and decremented above -3, so it never leaves its type.\<close>

definition IncrAlignVal :: "clock \<Rightarrow> clock" where
  "IncrAlignVal s0 =
     (let s = s0\<lparr>AlignValue := AlignValue s0 + 1\<rparr>
      in if AlignMode s < 5
         then (if AlignValue s > 29 then s\<lparr>AlignValue := 0\<rparr> else s)
         else (if AlignValue s > 11 then s\<lparr>AlignValue := 0\<rparr> else s))"

definition DecrAlignVal :: "clock \<Rightarrow> clock" where
  "DecrAlignVal s =
     (if AlignValue s > 0 then s\<lparr>AlignValue := AlignValue s - 1\<rparr>
      else if AlignMode s < 5 then s\<lparr>AlignValue := 29\<rparr>
      else s\<lparr>AlignValue := 11\<rparr>)"

text \<open>\<open>+\<close> in option mode: the block of five tests on \<^verbatim>\<open>OptionMode\<close>.\<close>

definition option_plus :: "clock \<Rightarrow> clock" where
  "option_plus s0 =
     (let s = (if OptionMode s0 = 1
               then (if HourBright s0 < 62 then s0\<lparr>HourBright := HourBright s0 + 2\<rparr> else s0)
               else s0);
          s = (if OptionMode s = 2
               then (if MinBright s < 62 then s\<lparr>MinBright := MinBright s + 2\<rparr> else s)
               else s);
          s = (if OptionMode s = 3
               then (if SecBright s < 62 then s\<lparr>SecBright := SecBright s + 2\<rparr> else s)
               else s);
          s = (if OptionMode s = 4 then s\<lparr>CCW := 0\<rparr> else s)
      in if OptionMode s = 5
         then (if FadeMode s < FadeModes then s\<lparr>FadeMode := FadeMode s + 1\<rparr> else s)
         else s)"

text \<open>\<open>+\<close> while setting the time: an hour, a minute or a second is added, and a time
  above 43200 is reduced by 43200.\<close>

definition setting_plus :: "clock \<Rightarrow> clock" where
  "setting_plus s0 =
     (let s = (if SettingTime s0 = 1 then s0\<lparr>timeNow := long (timeNow s0 + 3600)\<rparr> else s0);
          s = (if SettingTime s = 2 then s\<lparr>timeNow := long (timeNow s + 60)\<rparr> else s);
          s = (if SettingTime s > 2
               then s\<lparr>timeNow := long (timeNow s + 1), SettingTime := 3\<rparr>
               else s)
      in if timeNow s > 43200 then s\<lparr>timeNow := long (timeNow s - 43200)\<rparr> else s)"

text \<open>What a release of \<open>+\<close> does when it is not overridden.\<close>

definition plus_action :: "revision \<Rightarrow> clock \<Rightarrow> clock" where
  "plus_action rv s0 =
     (if SleepMode s0 \<noteq> 0 then s0\<lparr>SleepMode := 0\<rparr>
      else if AlignMode s0 \<noteq> 0 then
        (if AlignMode s0 AND 1 \<noteq> 0
         then (if AlignRate s0 < 2 then s0\<lparr>AlignRate := AlignRate s0 + 1\<rparr> else s0)
         else IncrAlignVal s0)
      else if OptionMode s0 \<noteq> 0 then option_plus s0
      else if SettingTime s0 \<noteq> 0 then setting_plus s0
      else
        (let s = s0\<lparr>MainBright := MainBright s0 + 1\<rparr>
         in if MainBright s > 8
            then s\<lparr>MainBright := (case rv of Interrupt \<Rightarrow> 8 | BusyLoop \<Rightarrow> 1)\<rparr>
            else s))"

text \<open>\<open>-\<close> in option mode.\<close>

definition option_minus :: "clock \<Rightarrow> clock" where
  "option_minus s0 =
     (let s = (if OptionMode s0 = 1
               then (if HourBright s0 > 1 then s0\<lparr>HourBright := HourBright s0 - 2\<rparr> else s0)
               else s0);
          s = (if OptionMode s = 2
               then (if MinBright s > 1 then s\<lparr>MinBright := MinBright s - 2\<rparr> else s)
               else s);
          s = (if OptionMode s = 3
               then (if SecBright s > 1 then s\<lparr>SecBright := SecBright s - 2\<rparr> else s)
               else s);
          s = (if OptionMode s = 4 then s\<lparr>CCW := 1\<rparr> else s)
      in if OptionMode s = 5
         then (if FadeMode s > 0 then s\<lparr>FadeMode := FadeMode s - 1\<rparr> else s)
         else s)"

text \<open>\<open>-\<close> while setting the time: an hour, a minute or a second is subtracted, and a
  negative time is raised by 43200. Taking a second off selects the sub-state 4, in
  which the clock does not tick.\<close>

definition setting_minus :: "clock \<Rightarrow> clock" where
  "setting_minus s0 =
     (let s = (if SettingTime s0 = 1 then s0\<lparr>timeNow := long (timeNow s0 - 3600)\<rparr> else s0);
          s = (if SettingTime s = 2 then s\<lparr>timeNow := long (timeNow s - 60)\<rparr> else s);
          s = (if SettingTime s > 2
               then s\<lparr>timeNow := long (timeNow s - 1), SettingTime := 4\<rparr>
               else s)
      in if timeNow s < 0 then s\<lparr>timeNow := long (timeNow s + 43200)\<rparr> else s)"

text \<open>What a release of \<open>-\<close> does when it is not overridden.\<close>

definition minus_action :: "revision \<Rightarrow> clock \<Rightarrow> clock" where
  "minus_action rv s0 =
     (if SleepMode s0 \<noteq> 0 then s0\<lparr>SleepMode := 0\<rparr>
      else if AlignMode s0 \<noteq> 0 then
        (if AlignMode s0 AND 1 \<noteq> 0
         then (if AlignRate s0 > - 3 then s0\<lparr>AlignRate := AlignRate s0 - 1\<rparr> else s0)
         else DecrAlignVal s0)
      else if OptionMode s0 \<noteq> 0 then option_minus s0
      else if SettingTime s0 \<noteq> 0 then setting_minus s0
      else
        (if MainBright s0 > 1 then s0\<lparr>MainBright := MainBright s0 - 1\<rparr>
         else s0\<lparr>MainBright := (case rv of Interrupt \<Rightarrow> 1 | BusyLoop \<Rightarrow> 8)\<rparr>))"

text \<open>What a release of \<open>Z\<close> does when it is not overridden. Only the interrupt
  revision skips the start-up animation for the option modes above 3.\<close>

definition z_action :: "revision \<Rightarrow> clock \<Rightarrow> clock" where
  "z_action rv s0 =
     (if AlignMode s0 \<noteq> 0 then
        (let s = s0\<lparr>AlignMode := AlignMode s0 + 1\<rparr>;
             s = (if AlignMode s > 6 then s\<lparr>AlignMode := 1\<rparr> else s)
         in s\<lparr>AlignValue := 0, AlignRate := 2\<rparr>)
      else if OptionMode s0 \<noteq> 0 then
        (let s = s0\<lparr>OptionMode := OptionMode s0 + 1, StartingOption := 0\<rparr>;
             s = (case rv of
                    Interrupt \<Rightarrow>
                      (if OptionMode s > 3 then s\<lparr>StartingOption := StartOptTimeLimit\<rparr> else s)
                  | BusyLoop \<Rightarrow> s)
         in if OptionMode s > 5 then s\<lparr>OptionMode := 1\<rparr> else s)
      else if SettingTime s0 \<noteq> 0 then
        (let s = s0\<lparr>SettingTime := SettingTime s0 + 1\<rparr>
         in if SettingTime s > 3 then s\<lparr>SettingTime := 1\<rparr> else s)
      else (if SleepMode s0 = 0 then s0\<lparr>SleepMode := 1\<rparr> else s0\<lparr>SleepMode := 0\<rparr>))"

text \<open>The three blocks of \<^verbatim>\<open>CheckButtons\<close> that react to a release: the bit of the
  button is set in the new sample \<^verbatim>\<open>PINDcopy\<close> and was clear in \<^verbatim>\<open>PINDLast\<close>. A set
  override flag is cleared in place of the action.\<close>

definition plus_release :: "revision \<Rightarrow> byte \<Rightarrow> clock \<Rightarrow> clock" where
  "plus_release rv PINDcopy s =
     (if PINDcopy AND 32 \<noteq> 0 \<and> PINDLast s AND 32 = 0
      then (if MomentaryOverridePlus s \<noteq> 0
            then s\<lparr>MomentaryOverridePlus := 0\<rparr>
            else plus_action rv s)
      else s)"

definition minus_release :: "revision \<Rightarrow> byte \<Rightarrow> clock \<Rightarrow> clock" where
  "minus_release rv PINDcopy s0 =
     (if PINDcopy AND 64 \<noteq> 0 \<and> PINDLast s0 AND 64 = 0
      then (let s = s0\<lparr>VCRmode := 0, TimeSinceButton := 0\<rparr>
            in if MomentaryOverrideMinus s \<noteq> 0
               then s\<lparr>MomentaryOverrideMinus := 0\<rparr>
               else minus_action rv s)
      else s0)"

definition z_release :: "revision \<Rightarrow> byte \<Rightarrow> clock \<Rightarrow> clock" where
  "z_release rv PINDcopy s0 =
     (if PINDcopy AND 128 \<noteq> 0 \<and> PINDLast s0 AND 128 = 0
      then (let s = s0\<lparr>VCRmode := 0, TimeSinceButton := 0\<rparr>
            in if MomentaryOverrideZ s \<noteq> 0
               then s\<lparr>MomentaryOverrideZ := 0\<rparr>
               else z_action rv s)
      else s0)"

text \<open>\<^verbatim>\<open>CheckButtons\<close> (inline in \<^verbatim>\<open>loop\<close> in the busy-loop revision); \<open>pind\<close> is the
  value read from the port \<^verbatim>\<open>PIND\<close>.\<close>

definition CheckButtons :: "revision \<Rightarrow> byte \<Rightarrow> clock \<Rightarrow> clock" where
  "CheckButtons rv pind s0 =
     (let PINDcopy = pind AND buttonmask;
          s = (if PINDcopy \<noteq> PINDLast s0
               then z_release rv PINDcopy
                      (minus_release rv PINDcopy
                        (plus_release rv PINDcopy (s0\<lparr>VCRmode := 0, TimeSinceButton := 0\<rparr>)))
               else s0)
      in s\<lparr>PINDLast := PINDcopy\<rparr>)"

section \<open>Held buttons\<close>

text \<open>\<^verbatim>\<open>CheckHeld\<close> runs once a second (inline in \<^verbatim>\<open>loop\<close> in the busy-loop revision,
  where a save is followed by a delay). It reads the port several times within a few
  instructions; the model samples it once, as \<open>pind\<close>. Its first part counts: with no
  button down the three counters are cleared and the idle counter is advanced to at
  most 250; with buttons down, the counter of the combination that is down is
  incremented and the two others are cleared. A combination other than the three leaves
  the counters as they are.\<close>

definition hold_count :: "byte \<Rightarrow> clock \<Rightarrow> clock" where
  "hold_count pind s0 =
     (if pind AND buttonmask = buttonmask
      then
        (let s = s0\<lparr>HoldTimeSet := 0, HoldOption := 0, HoldAlign := 0, FactoryResetDisable := 1\<rparr>;
             s = (if TimeSinceButton s < 250
                  then s\<lparr>TimeSinceButton := TimeSinceButton s + 1\<rparr>
                  else s)
         in if TimeSinceButton s = 10
            then (if LastSavedBrightness s \<noteq> MainBright s then EESaveSettings s else s)
            else s)
      else
        (let s = (if pind AND buttonmask = 128
                  then s0\<lparr>HoldAlign := HoldAlign s0 + 1, HoldOption := 0, HoldTimeSet := 0\<rparr>
                  else s0);
             s = (if pind AND buttonmask = 64
                  then s\<lparr>HoldOption := HoldOption s + 1, HoldTimeSet := 0, HoldAlign := 0\<rparr>
                  else s)
         in if pind AND buttonmask = 96
            then s\<lparr>HoldTimeSet := HoldTimeSet s + 1, HoldOption := 0, HoldAlign := 0\<rparr>
            else s))"

text \<open>\<open>+\<close> and \<open>-\<close> held: alignment mode on or off, or factory settings when no second
  has passed with all buttons up since power-on.\<close>

definition hold_align :: "clock \<Rightarrow> clock" where
  "hold_align s0 =
     (if HoldAlign s0 = 3
      then
        (let s = s0\<lparr>MomentaryOverridePlus := 1, MomentaryOverrideMinus := 1,
                    OptionMode := 0, SettingTime := 0\<rparr>
         in if FactoryResetDisable s = 0 then EESaveSettings (ApplyDefaults s)
            else if AlignMode s \<noteq> 0 then s\<lparr>AlignMode := 0\<rparr>
            else s\<lparr>AlignMode := 1, AlignValue := 0, AlignRate := 2\<rparr>)
      else s0)"

text \<open>\<open>+\<close> and \<open>Z\<close> held: option mode on, or off with a save.\<close>

definition hold_option :: "clock \<Rightarrow> clock" where
  "hold_option s0 =
     (if HoldOption s0 = 3
      then
        (let s = s0\<lparr>MomentaryOverridePlus := 1, MomentaryOverrideZ := 1,
                    AlignMode := 0, SettingTime := 0\<rparr>
         in if OptionMode s \<noteq> 0 then EESaveSettings (s\<lparr>OptionMode := 0\<rparr>)
            else s\<lparr>OptionMode := 1, StartingOption := 0\<rparr>)
      else s0)"

text \<open>\<open>Z\<close> held alone: back to the normal display from any of the three modes, or
  into time setting from the normal display. \<^verbatim>\<open>RTCsetTime\<close> only writes to the bus.
  The sum \<^verbatim>\<open>AlignMode + OptionMode + SettingTime\<close> is formed in \<^verbatim>\<open>int\<close>.\<close>

definition hold_timeset :: "clock \<Rightarrow> clock" where
  "hold_timeset s0 =
     (if HoldTimeSet s0 = 3
      then
        (let s = s0\<lparr>MomentaryOverrideZ := 1\<rparr>;
             s = (if (ucast (AlignMode s) + ucast (OptionMode s) + ucast (SettingTime s) :: uint) \<noteq> 0
                  then (let s = (if OptionMode s \<noteq> 0 then EESaveSettings s else s)
                        in s\<lparr>SettingTime := 0\<rparr>)
                  else s\<lparr>SettingTime := 1\<rparr>)
         in s\<lparr>AlignMode := 0, OptionMode := 0\<rparr>)
      else s0)"

definition CheckHeld :: "byte \<Rightarrow> clock \<Rightarrow> clock" where
  "CheckHeld pind s = hold_timeset (hold_option (hold_align (hold_count pind s)))"

text \<open>The number of the three hold actions that one call of \<^verbatim>\<open>CheckHeld\<close> runs.\<close>

definition transitions_fired :: "byte \<Rightarrow> clock \<Rightarrow> nat" where
  "transitions_fired pind s =
     (let c = hold_count pind s;
          a = (if HoldAlign c = 3 then 1 else 0);
          c = hold_align c;
          b = (if HoldOption c = 3 then 1 else 0);
          c = hold_option c
      in a + b + (if HoldTimeSet c = 3 then 1 else 0))"

section \<open>The main loop\<close>

text \<open>The tick at the end of the once-a-second block of \<^verbatim>\<open>loop\<close>.\<close>

definition tick :: "clock \<Rightarrow> clock" where
  "tick s0 =
     (if SettingTime s0 < 4
      then (let s = s0\<lparr>timeNow := long (timeNow s0 + 1)\<rparr>
            in if timeNow s > 43200 then s\<lparr>timeNow := long (timeNow s - 43200)\<rparr> else s)
      else s0)"

text \<open>The once-a-second block without the advance of \<^verbatim>\<open>millisThen\<close>.\<close>

definition one_second :: "byte \<Rightarrow> clock \<Rightarrow> clock" where
  "one_second pind s = tick (CheckHeld pind s)"

text \<open>The part of one pass of \<^verbatim>\<open>loop\<close> that changes the time and the modes. The input
  is the value of \<^verbatim>\<open>millis()\<close>, the port as \<^verbatim>\<open>CheckButtons\<close> reads it and the port
  as \<^verbatim>\<open>CheckHeld\<close> reads it. The interrupt revision reads the milliseconds before
  the buttons, the busy-loop revision after them. The rest of the pass computes the
  display; its serial time sync, which relies on the Time library, is not part of this
  model.\<close>

definition loop_logic :: "revision \<Rightarrow> ulong \<times> byte \<times> byte \<Rightarrow> clock \<Rightarrow> clock" where
  "loop_logic rv inp s0 =
     (case inp of (m, pind, pind_held) \<Rightarrow>
        let s = (case rv of
                   Interrupt \<Rightarrow> CheckButtons rv pind (s0\<lparr>millisNow := m\<rparr>)
                 | BusyLoop \<Rightarrow> (CheckButtons rv pind s0)\<lparr>millisNow := m\<rparr>)
        in if millisNow s - millisThen s \<ge> 1000
           then one_second pind_held (s\<lparr>millisThen := millisThen s + 1000\<rparr>)
           else s)"

text \<open>A run of the loop over a list of inputs, and the states the sketch can reach.\<close>

fun run :: "revision \<Rightarrow> (ulong \<times> byte \<times> byte) list \<Rightarrow> clock \<Rightarrow> clock" where
  "run rv [] s = s"
| "run rv (inp # inps) s = run rv inps (loop_logic rv inp s)"

inductive reachable :: "revision \<Rightarrow> clock \<Rightarrow> bool" for rv :: revision where
  start: "reachable rv (setup_clock m pind bus (power_on ee))"
| step: "reachable rv s \<Longrightarrow> reachable rv (loop_logic rv inp s)"

text \<open>The hold actions that run while the port reads \<open>pind\<close> for \<open>n\<close> seconds on
  end.\<close>

fun fired_during :: "byte \<Rightarrow> nat \<Rightarrow> clock \<Rightarrow> nat" where
  "fired_during pind 0 s = 0"
| "fired_during pind (Suc n) s =
     transitions_fired pind s + fired_during pind n (one_second pind s)"

text \<open>The time is within the twelve hours, both ends included.\<close>

definition time_in_range :: "clock \<Rightarrow> bool" where
  "time_in_range s = (0 \<le> timeNow s \<and> timeNow s \<le> 43200)"

text \<open>At most one of the three modes is on.\<close>

definition one_mode :: "clock \<Rightarrow> bool" where
  "one_mode s =
     ((AlignMode s = 0 \<and> OptionMode s = 0) \<or> (AlignMode s = 0 \<and> SettingTime s = 0)
      \<or> (OptionMode s = 0 \<and> SettingTime s = 0))"

text \<open>A stored record whose main brightness is 0 and whose other bytes are in range.\<close>

definition ee_dark :: "nat \<Rightarrow> byte" where
  "ee_dark n = (if n = 0 then 0 else if n = 4 then 1 else if n = 5 then 3 else 10)"

section \<open>Properties of the persistent settings\<close>

lemma EEUpdate_writes:
  "EEwrites (EEUpdate loc val s) =
     (if EEPROM s loc = val then EEwrites s else EEwrites s @ [(loc, val)])"
  by (simp add: EEUpdate_def)

lemma EEUpdate_fields:
  "EEPROM (EEUpdate loc val s) = (EEPROM s)(loc := val)"
  "MainBright (EEUpdate loc val s) = MainBright s"
  "HourBright (EEUpdate loc val s) = HourBright s"
  "MinBright (EEUpdate loc val s) = MinBright s"
  "SecBright (EEUpdate loc val s) = SecBright s"
  "CCW (EEUpdate loc val s) = CCW s"
  "FadeMode (EEUpdate loc val s) = FadeMode s"
  by (auto simp add: EEUpdate_def)

text \<open>The writes of a save are exactly the fields whose stored byte differs, in the
  order of the addresses.\<close>

lemma EESaveSettings_writes:
  "EEwrites (EESaveSettings s) =
     EEwrites s @ filter (\<lambda>(loc, val). EEPROM s loc \<noteq> val)
       [(0, MainBright s), (1, HourBright s), (2, MinBright s), (3, SecBright s),
        (4, CCW s), (5, FadeMode s)]"
  by (simp add: EESaveSettings_def Let_def EEUpdate_writes EEUpdate_fields)

lemma factory_ApplyDefaults: "factory_settings (ApplyDefaults s)"
  by (simp add: factory_settings_def ApplyDefaults_def)

lemma factory_LastSaved:
  "factory_settings (s\<lparr>LastSavedBrightness := v\<rparr>) = factory_settings s"
  by (simp add: factory_settings_def)

lemma EEReadSettings_bad0: "EEPROM s 0 > 8 \<Longrightarrow> factory_settings (EEReadSettings s)"
  by (simp add: EEReadSettings_def Let_def factory_ApplyDefaults factory_LastSaved)

lemma EEReadSettings_bad1: "EEPROM s 1 > 63 \<Longrightarrow> factory_settings (EEReadSettings s)"
  by (simp add: EEReadSettings_def Let_def factory_ApplyDefaults factory_LastSaved)

lemma EEReadSettings_bad2: "EEPROM s 2 > 63 \<Longrightarrow> factory_settings (EEReadSettings s)"
  by (simp add: EEReadSettings_def Let_def factory_ApplyDefaults factory_LastSaved)

lemma EEReadSettings_bad3: "EEPROM s 3 > 63 \<Longrightarrow> factory_settings (EEReadSettings s)"
  by (simp add: EEReadSettings_def Let_def factory_ApplyDefaults factory_LastSaved)

lemma EEReadSettings_bad4: "EEPROM s 4 > 1 \<Longrightarrow> factory_settings (EEReadSettings s)"
  by (simp add: EEReadSettings_def Let_def factory_ApplyDefaults factory_LastSaved)

lemma EEReadSettings_bad5: "EEPROM s 5 = 255 \<Longrightarrow> factory_settings (EEReadSettings s)"
  by (simp add: EEReadSettings_def Let_def factory_ApplyDefaults factory_LastSaved)

lemma EEReadSettings_bad:
  "EEPROM s 0 > 8 \<or> EEPROM s 1 > 63 \<or> EEPROM s 2 > 63 \<or> EEPROM s 3 > 63 \<or> EEPROM s 4 > 1
     \<or> EEPROM s 5 = 255 \<Longrightarrow> factory_settings (EEReadSettings s)"
  using EEReadSettings_bad0 EEReadSettings_bad1 EEReadSettings_bad2 EEReadSettings_bad3
    EEReadSettings_bad4 EEReadSettings_bad5 by blast

lemma EEReadSettings_good:
  assumes "EEPROM s 0 \<le> 8" "EEPROM s 1 \<le> 63" "EEPROM s 2 \<le> 63" "EEPROM s 3 \<le> 63"
    "EEPROM s 4 \<le> 1" "EEPROM s 5 \<noteq> 255"
  shows "EEReadSettings s = s\<lparr>MainBright := (if EEPROM s 0 = 0 then 1 else EEPROM s 0),
      HourBright := EEPROM s 1, MinBright := EEPROM s 2, SecBright := EEPROM s 3,
      CCW := EEPROM s 4, FadeMode := EEPROM s 5,
      LastSavedBrightness := (if EEPROM s 0 = 0 then 1 else EEPROM s 0)\<rparr>"
proof -
  have n: "\<not> 8 < EEPROM s 0" "\<not> 63 < EEPROM s 1" "\<not> 63 < EEPROM s 2" "\<not> 63 < EEPROM s 3"
    "\<not> 1 < EEPROM s 4"
    using assms by (simp_all add: not_less)
  show ?thesis
    using n assms(6) by (simp add: EEReadSettings_def Let_def)
qed

lemma EEReadSettings_EEPROM: "EEPROM (EEReadSettings s) = EEPROM s"
  by (simp add: EEReadSettings_def Let_def ApplyDefaults_def split: prod.splits)

lemma EEReadSettings_EEwrites: "EEwrites (EEReadSettings s) = EEwrites s"
  by (simp add: EEReadSettings_def Let_def ApplyDefaults_def split: prod.splits)

text \<open>
  Claim C4, as amended. \<^verbatim>\<open>EEReadSettings\<close> replaces all six settings by the factory
  defaults whenever the stored main brightness is above 8, a stored channel brightness
  is above 63, the stored rotation flag is above 1 or the stored fade byte is 255. When
  the stored main brightness is 0..8, the channels are 0..63, the flag is 0 or 1 and the
  fade mode is 0..4, every setting is loaded as stored, except that a stored main
  brightness of 0 is loaded as 1.
\<close>

theorem EEReadSettings_defaults:
  "(EEPROM s 0 > 8 \<or> EEPROM s 1 > 63 \<or> EEPROM s 2 > 63 \<or> EEPROM s 3 > 63 \<or> EEPROM s 4 > 1
      \<or> EEPROM s 5 = 255 \<longrightarrow> factory_settings (EEReadSettings s))
   \<and> (EEPROM s 0 \<le> 8 \<and> EEPROM s 1 \<le> 63 \<and> EEPROM s 2 \<le> 63 \<and> EEPROM s 3 \<le> 63
      \<and> EEPROM s 4 \<le> 1 \<and> EEPROM s 5 \<le> 4 \<longrightarrow>
        MainBright (EEReadSettings s) = (if EEPROM s 0 = 0 then 1 else EEPROM s 0)
        \<and> HourBright (EEReadSettings s) = EEPROM s 1
        \<and> MinBright (EEReadSettings s) = EEPROM s 2
        \<and> SecBright (EEReadSettings s) = EEPROM s 3
        \<and> CCW (EEReadSettings s) = EEPROM s 4
        \<and> FadeMode (EEReadSettings s) = EEPROM s 5)"
proof (intro conjI impI)
  assume "EEPROM s 0 > 8 \<or> EEPROM s 1 > 63 \<or> EEPROM s 2 > 63 \<or> EEPROM s 3 > 63
    \<or> EEPROM s 4 > 1 \<or> EEPROM s 5 = 255"
  then show "factory_settings (EEReadSettings s)" by (rule EEReadSettings_bad)
next
  assume a: "EEPROM s 0 \<le> 8 \<and> EEPROM s 1 \<le> 63 \<and> EEPROM s 2 \<le> 63 \<and> EEPROM s 3 \<le> 63
      \<and> EEPROM s 4 \<le> 1 \<and> EEPROM s 5 \<le> 4"
  then have "EEPROM s 5 \<noteq> 255" by auto
  with a have e: "EEReadSettings s = s\<lparr>MainBright := (if EEPROM s 0 = 0 then 1 else EEPROM s 0),
      HourBright := EEPROM s 1, MinBright := EEPROM s 2, SecBright := EEPROM s 3,
      CCW := EEPROM s 4, FadeMode := EEPROM s 5,
      LastSavedBrightness := (if EEPROM s 0 = 0 then 1 else EEPROM s 0)\<rparr>"
    by (simp add: EEReadSettings_good)
  show "MainBright (EEReadSettings s) = (if EEPROM s 0 = 0 then 1 else EEPROM s 0)"
    by (simp add: e)
  show "HourBright (EEReadSettings s) = EEPROM s 1" by (simp add: e)
  show "MinBright (EEReadSettings s) = EEPROM s 2" by (simp add: e)
  show "SecBright (EEReadSettings s) = EEPROM s 3" by (simp add: e)
  show "CCW (EEReadSettings s) = EEPROM s 4" by (simp add: e)
  show "FadeMode (EEReadSettings s) = EEPROM s 5" by (simp add: e)
qed

text \<open>The theorem at an erased EEPROM (every byte 255) and at one that holds zeros.\<close>

theorem EEReadSettings_defaults_witness:
  "factory_settings (EEReadSettings (power_on (\<lambda>_. 255)))
   \<and> MainBright (EEReadSettings (power_on (\<lambda>_. 0))) = 1
   \<and> HourBright (EEReadSettings (power_on (\<lambda>_. 0))) = 0"
  using EEReadSettings_defaults [of "power_on (\<lambda>_. 255)"]
    EEReadSettings_defaults [of "power_on (\<lambda>_. 0)"]
  by (simp add: power_on_def)

text \<open>Claim C4 as stated fails: with a stored main brightness of 0, which is outside
  1..8, and the other bytes in range, only the main brightness is repaired (to 1); the
  hour brightness stays at its stored 10 and the settings are not the defaults.\<close>

theorem EEReadSettings_partial_repair:
  "\<not> spec_valid_settings (EEPROM (power_on ee_dark))
   \<and> \<not> factory_settings (EEReadSettings (power_on ee_dark))
   \<and> MainBright (EEReadSettings (power_on ee_dark)) = 1
   \<and> HourBright (EEReadSettings (power_on ee_dark)) = 10"
  by (simp add: spec_valid_settings_def factory_settings_def power_on_def ee_dark_def
      EEReadSettings_def Let_def MainBrightDefault_def)

text \<open>
  Claim C7, as amended. A save writes a byte exactly when the stored value differs from
  the new one; and a save right after a load issues no write at all when the load
  accepted every stored byte (main brightness 1..8, channels at most 63, rotation flag
  at most 1, fade byte other than 255).
\<close>

theorem EESaveSettings_economy:
  "EEwrites (EESaveSettings s) =
     EEwrites s @ filter (\<lambda>(loc, val). EEPROM s loc \<noteq> val)
       [(0, MainBright s), (1, HourBright s), (2, MinBright s), (3, SecBright s),
        (4, CCW s), (5, FadeMode s)]
   \<and> (stored_accepted (EEPROM s) \<longrightarrow>
        EEwrites (EESaveSettings (EEReadSettings s)) = EEwrites s)"
proof (intro conjI impI)
  show "EEwrites (EESaveSettings s) =
     EEwrites s @ filter (\<lambda>(loc, val). EEPROM s loc \<noteq> val)
       [(0, MainBright s), (1, HourBright s), (2, MinBright s), (3, SecBright s),
        (4, CCW s), (5, FadeMode s)]"
    by (rule EESaveSettings_writes)
next
  assume a: "stored_accepted (EEPROM s)"
  then have e: "EEReadSettings s = s\<lparr>MainBright := EEPROM s 0,
      HourBright := EEPROM s 1, MinBright := EEPROM s 2, SecBright := EEPROM s 3,
      CCW := EEPROM s 4, FadeMode := EEPROM s 5, LastSavedBrightness := EEPROM s 0\<rparr>"
    by (auto simp add: stored_accepted_def EEReadSettings_good)
  show "EEwrites (EESaveSettings (EEReadSettings s)) = EEwrites s"
    by (simp add: EESaveSettings_writes e)
qed

theorem EESaveSettings_economy_witness:
  "EEwrites (EESaveSettings (EEReadSettings (power_on (\<lambda>_. 1)))) = []"
  using EESaveSettings_economy [of "power_on (\<lambda>_. 1)"]
  by (simp add: stored_accepted_def power_on_def)

text \<open>Claim C7 as stated fails: on an erased EEPROM the load substitutes the defaults,
  and the save that follows writes all six bytes.\<close>

theorem save_after_load_writes:
  "EEwrites (EESaveSettings (EEReadSettings (power_on (\<lambda>_. 255)))) =
     [(0, 8), (1, 63), (2, 63), (3, 63), (4, 0), (5, 1)]"
proof -
  have f: "factory_settings (EEReadSettings (power_on (\<lambda>_. 255)))"
    by (rule EEReadSettings_bad) (simp add: power_on_def)
  show ?thesis
    using f
    by (simp add: EESaveSettings_writes EEReadSettings_EEPROM EEReadSettings_EEwrites
        factory_settings_def power_on_def MainBrightDefault_def RedBrightDefault_def
        GreenBrightDefault_def BlueBrightDefault_def CCWDefault_def FadeModeDefault_def)
qed

section \<open>Ring positions in the two revisions\<close>

lemma c_div_nonneg: "0 \<le> a \<Longrightarrow> 0 < b \<Longrightarrow> c_div a b = a div b"
  by (cases "a = 0") (simp_all add: c_div_def)

lemma c_mod_nonneg: "0 \<le> a \<Longrightarrow> 0 < b \<Longrightarrow> c_mod a b = a mod b"
  by (simp add: c_mod_def c_div_nonneg minus_mult_div_eq_mod)

text \<open>Hours, minutes and seconds of a time that is not negative, busy-loop revision.\<close>

lemma hms_BusyLoop:
  "hms BusyLoop (int n) =
     (of_nat (n div 3600), of_nat (n div 60 mod 60), of_nat (n mod 60))"
proof -
  have h: "c_div (int n) 3600 = int (n div 3600)"
    by (simp add: c_div_nonneg zdiv_int)
  have m: "c_mod (c_div (int n) 60) 60 = int (n div 60 mod 60)"
    by (simp add: c_div_nonneg c_mod_nonneg zdiv_int zmod_int)
  have s: "c_mod (int n) 60 = int (n mod 60)"
    by (simp add: c_mod_nonneg zmod_int)
  show ?thesis
    unfolding hms_def by (simp only: revision.case Let_def h m s of_int_of_nat_eq)
qed

lemma unat_ucast_byte: "unat (w :: uint) < 256 \<Longrightarrow> unat (ucast w :: byte) = unat w"
  by (simp add: unsigned_ucast_eq unsigned_take_bit_eq take_bit_nat_eq_self)

lemma unat_ucast_uint: "unat (ucast (b :: byte) :: uint) = unat b"
  by (simp add: unsigned_ucast_eq unsigned_take_bit_eq take_bit_nat_eq_self
      order_less_trans [OF unsigned_less])

lemma byte_of_unat: "unat (b :: byte) = k \<Longrightarrow> b = of_nat k"
  by (metis of_nat_unat ucast_id)

text \<open>The same in the interrupt revision, for a time that fits the 16 bits of
  \<^verbatim>\<open>unsigned int t\<close>: no step of the unsigned arithmetic wraps.\<close>

lemma hms_Interrupt:
  assumes "n < 65536"
  shows "hms Interrupt (int n) =
     (of_nat (n div 3600), of_nat (n mod 3600 div 60), of_nat (n mod 60))"
proof -
  let ?t = "of_nat n :: uint"
  let ?h = "ucast (?t div 3600) :: byte"
  let ?t2 = "?t - ucast ?h * 3600"
  let ?m = "ucast (?t2 div 60) :: byte"
  let ?s = "ucast (?t2 - ucast ?m * 60) :: byte"
  have t: "unat ?t = n"
    using assms by (simp add: unat_of_nat)
  have h16: "unat (?t div 3600) = n div 3600"
    by (simp add: unat_div t)
  have hb: "n div 3600 < 256" using assms by simp
  have h8: "unat ?h = n div 3600"
    using hb by (simp add: unat_ucast_byte h16)
  have le: "n div 3600 * 3600 \<le> n" by simp
  have p: "unat ((ucast ?h :: uint) * 3600) = n div 3600 * 3600"
    using le assms by (simp add: unat_word_ariths unat_ucast_uint h8)
  have t2: "unat ?t2 = n mod 3600"
    using le by (simp add: unat_sub word_le_nat_alt p t modulo_nat_def)
  have m16: "unat (?t2 div 60) = n mod 3600 div 60"
    by (simp add: unat_div t2)
  have mb: "n mod 3600 div 60 < 256"
    by (rule less_trans [of _ 60]) simp_all
  have m8: "unat ?m = n mod 3600 div 60"
    using mb by (simp add: unat_ucast_byte m16)
  have le2: "n mod 3600 div 60 * 60 \<le> n mod 3600" by simp
  have lt2: "n mod 3600 div 60 * 60 < 65536"
    by (rule le_less_trans [OF le2]) (rule less_trans [of _ 3600], simp_all)
  have p2: "unat ((ucast ?m :: uint) * 60) = n mod 3600 div 60 * 60"
    using lt2 by (simp add: unat_word_ariths unat_ucast_uint m8)
  have s16: "unat (?t2 - ucast ?m * 60) = n mod 3600 mod 60"
    using le2 by (simp add: unat_sub word_le_nat_alt p2 t2 modulo_nat_def [of "n mod 3600"])
  have sm: "n mod 3600 mod 60 = n mod 60"
    by (simp add: mod_mod_cancel)
  have sb: "n mod 60 < 256"
    by (rule less_trans [of _ 60]) simp_all
  have s8: "unat ?s = n mod 60"
    using sb by (simp add: unat_ucast_byte s16 sm)
  have e: "hms Interrupt (int n) = (?h, ?m, ?s)"
    by (simp add: hms_def Let_def)
  show ?thesis
    unfolding e prod.inject
    by (intro conjI) (rule byte_of_unat [OF h8], rule byte_of_unat [OF m8],
        rule byte_of_unat [OF s8])
qed

lemma div_mod_3600: "(n::nat) mod 3600 div 60 = n div 60 mod 60"
  by (simp add: mod_mult2_eq [of n 60 60, simplified])

lemma hms_eq: "n < 65536 \<Longrightarrow> hms Interrupt (int n) = hms BusyLoop (int n)"
  by (simp add: hms_Interrupt hms_BusyLoop div_mod_3600)

text \<open>The two ways of placing a second or a minute on its ring agree on 0..59.\<close>

lemma sec_ring_all:
  "\<forall>k \<in> set [0..<60]. sec_ring Interrupt (of_nat k) = sec_ring BusyLoop (of_nat k)"
  by code_simp

lemma min_ring_all:
  "\<forall>k \<in> set [0..<60]. min_ring Interrupt (of_nat k) = min_ring BusyLoop (of_nat k)"
  by code_simp

lemma sec_ring_eq: "k < 60 \<Longrightarrow> sec_ring Interrupt (of_nat k) = sec_ring BusyLoop (of_nat k)"
  using sec_ring_all by simp

lemma min_ring_eq: "k < 60 \<Longrightarrow> min_ring Interrupt (of_nat k) = min_ring BusyLoop (of_nat k)"
  using min_ring_all by simp

text \<open>
  Claim C10. For every \<^verbatim>\<open>timeNow\<close> in [0, 43200) and the same \<^verbatim>\<open>FadeMode\<close> and
  \<^verbatim>\<open>SettingTime\<close>, \<^verbatim>\<open>NormalTimeDisplay\<close> of the interrupt revision and of the
  busy-loop revision compute the same six values \<^verbatim>\<open>HrDisp\<close>, \<^verbatim>\<open>HrNext\<close>,
  \<^verbatim>\<open>MinDisp\<close>, \<^verbatim>\<open>MinNext\<close>, \<^verbatim>\<open>SecDisp\<close>, \<^verbatim>\<open>SecNext\<close>.
\<close>

theorem NormalTimeDisplay_revisions_agree:
  assumes "0 \<le> timeNow s" and "timeNow s < 43200"
  shows "positions (NormalTimeDisplay Interrupt s) = positions (NormalTimeDisplay BusyLoop s)"
proof -
  obtain n where n: "timeNow s = int n"
    using assms(1) by (metis nat_0_le)
  with assms(2) have "n < 65536" by simp
  then have h: "hms Interrupt (timeNow s) = hms BusyLoop (timeNow s)"
    by (simp add: n hms_eq)
  have b: "hms BusyLoop (timeNow s) =
      (of_nat (n div 3600), of_nat (n div 60 mod 60), of_nat (n mod 60))"
    by (simp add: n hms_BusyLoop)
  have sr: "sec_ring Interrupt (of_nat (n mod 60)) = sec_ring BusyLoop (of_nat (n mod 60))"
    by (rule sec_ring_eq) simp
  have mr: "min_ring Interrupt (of_nat (n div 60 mod 60)) =
      min_ring BusyLoop (of_nat (n div 60 mod 60))"
    by (rule min_ring_eq) simp
  show ?thesis
    by (simp add: NormalTimeDisplay_def positions_def h b sr mr split: prod.splits)
qed

theorem NormalTimeDisplay_revisions_agree_witness:
  "positions (NormalTimeDisplay Interrupt ((power_on (\<lambda>_. 0))\<lparr>timeNow := 3600\<rparr>)) =
   positions (NormalTimeDisplay BusyLoop ((power_on (\<lambda>_. 0))\<lparr>timeNow := 3600\<rparr>))"
  using NormalTimeDisplay_revisions_agree [of "(power_on (\<lambda>_. 0))\<lparr>timeNow := 3600\<rparr>"]
  by simp

section \<open>Reads of the fade table\<close>

lemma length_FadeConv: "length (FadeConv rv) = 201"
  by (cases rv) (simp_all add: FadeConv_def)


lemma unat_byte_of_nat: "k < 256 \<Longrightarrow> unat (of_nat k :: byte) = k"
  by (simp add: unat_of_nat)






text \<open>Without the bound on the elapsed milliseconds the read does leave the table: 1010 ms
  into an odd second the index is 201.\<close>

lemma NormalFades_late:
  "NormalFades Interrupt
     ((power_on (\<lambda>_. 0))\<lparr>timeNow := 43199, millisNow := 1010, FadeMode := 4\<rparr>) = None"
  by (simp add: NormalFades_def hms_Interrupt [of 43199, simplified] log_fades_def
      table_at_def sec_index_def length_FadeConv power_on_def)

section \<open>Dwell times of the multiplexer\<close>








text \<open>The interrupt revision shifts by 8: at full brightness the dwell is 124, half of
  the 248 that the comment beside the statement gives as the maximum, and the smallest
  nonzero inputs give 0.\<close>

lemma interrupt_dwell_halved:
  "dwell Interrupt 63 63 8 = 124 \<and> dwell BusyLoop 63 63 8 = 248 \<and> dwell Interrupt 1 1 1 = 0"
  by (simp add: dwell_def)

section \<open>Correction from the real-time clock chip\<close>

text \<open>The decoded minutes are zero exactly when the minutes register is zero.\<close>

lemma bcd_minutes_all:
  "\<forall>k \<in> set [0..<256]. (bcd_decode 240 (of_nat k) = 0) = ((of_nat k :: byte) = 0)"
  by code_simp

lemma bcd_minutes_zero: "(bcd_decode 240 r = 0) = (r = 0)"
proof -
  have "unat r < 256"
    using unsigned_less [of r] by simp
  then have "unat r \<in> set [0..<256]" by simp
  from bcd_minutes_all [THEN bspec, OF this] show ?thesis by simp
qed

text \<open>On times of the clock's range the macro \<^verbatim>\<open>abs\<close> is the absolute value of the
  difference.\<close>

lemma abs_long_diff:
  assumes "0 \<le> tn" and "tn \<le> 43200"
  shows "abs_long (long (uint (t :: uint) - tn)) = \<bar>uint t - tn\<bar>"
proof -
  have "uint t < 65536"
    using uint_bounded [of t] by simp
  moreover have "0 \<le> uint t" by simp
  ultimately have r: "- 43200 \<le> uint t - tn" "uint t - tn < 65536"
    using assms by linarith+
  then have l: "long (uint t - tn) = uint t - tn"
    unfolding long_def by (intro signed_take_bit_int_eq_self) simp_all
  have n: "long (- (uint t - tn)) = - (uint t - tn)"
    unfolding long_def using r by (intro signed_take_bit_int_eq_self) simp_all
  show ?thesis
    unfolding l abs_long_def n by simp
qed

text \<open>
  Claim C8. \<^verbatim>\<open>RTCgetTime\<close>, on a successful read with \<^verbatim>\<open>timeNow\<close> in the clock's
  range: when \<^verbatim>\<open>UpdateRTC\<close> is set (the first read after power-on) the time of the chip
  is always taken and the flag is cleared; otherwise a minutes register of zero leaves
  the state untouched whatever the discrepancy, and a nonzero one makes the time of the
  chip replace \<^verbatim>\<open>timeNow\<close> exactly when they differ by more than 2 seconds. With no
  answer from the chip nothing changes and the status is 0.
\<close>

theorem RTCgetTime_policy:
  assumes "0 \<le> timeNow s" and "timeNow s \<le> 43200"
  shows "(UpdateRTC s \<noteq> 0 \<longrightarrow>
            RTCgetTime (Some (seconds, minutes, hours)) s =
              (1, s\<lparr>timeNow := uint (timeRTC (seconds, minutes, hours)), UpdateRTC := 0\<rparr>))
       \<and> (UpdateRTC s = 0 \<and> minutes = 0 \<longrightarrow>
            RTCgetTime (Some (seconds, minutes, hours)) s = (1, s))
       \<and> (UpdateRTC s = 0 \<and> minutes \<noteq> 0 \<longrightarrow>
            RTCgetTime (Some (seconds, minutes, hours)) s =
              (1, if \<bar>uint (timeRTC (seconds, minutes, hours)) - timeNow s\<bar> > 2
                  then s\<lparr>timeNow := uint (timeRTC (seconds, minutes, hours)), UpdateRTC := 0\<rparr>
                  else s))
       \<and> RTCgetTime None s = (0, s)"
proof -
  note a = abs_long_diff [OF assms, of "timeRTC (seconds, minutes, hours)"]
  show ?thesis
    by (simp add: RTCgetTime_def Let_def a bcd_minutes_zero)
qed

text \<open>At a quarter past one the chip reads 01:15:00: the first read is taken; a later read
  at 02:00:30 with a clock showing 01:15:00 is ignored because its minutes are zero; a
  later read at 01:16:00 is taken, and one at 01:15:02 is not.\<close>

theorem RTCgetTime_policy_witness:
  "timeNow (snd (RTCgetTime (Some (0, 0x15, 1)) ((power_on (\<lambda>_. 0))\<lparr>UpdateRTC := 1\<rparr>))) = 4500
   \<and> RTCgetTime (Some (0x30, 0, 2)) ((power_on (\<lambda>_. 0))\<lparr>timeNow := 4500\<rparr>) =
        (1, (power_on (\<lambda>_. 0))\<lparr>timeNow := 4500\<rparr>)
   \<and> timeNow (snd (RTCgetTime (Some (0, 0x16, 1)) ((power_on (\<lambda>_. 0))\<lparr>timeNow := 4500\<rparr>))) = 4560
   \<and> timeNow (snd (RTCgetTime (Some (2, 0x15, 1)) ((power_on (\<lambda>_. 0))\<lparr>timeNow := 4500\<rparr>))) = 4500"
  using RTCgetTime_policy [of "(power_on (\<lambda>_. 0))\<lparr>UpdateRTC := 1\<rparr>" 0 "0x15" 1]
    RTCgetTime_policy [of "(power_on (\<lambda>_. 0))\<lparr>timeNow := 4500\<rparr>" "0x30" 0 2]
    RTCgetTime_policy [of "(power_on (\<lambda>_. 0))\<lparr>timeNow := 4500\<rparr>" 0 "0x16" 1]
    RTCgetTime_policy [of "(power_on (\<lambda>_. 0))\<lparr>timeNow := 4500\<rparr>" 2 "0x15" 1]
  by (simp add: power_on_def timeRTC_def bcd_decode_def)

end
